theory Spec2Isabelle
  imports Complex_Main "HOL-Library.AList"
begin

section \<open>Python values and the few built-ins the scripts use\<close>

text \<open>
  The three probing scripts (\<^verbatim>\<open>scripts/context_length_test.py\<close>,
  \<^verbatim>\<open>scripts/smart_context_test.py\<close>, \<^verbatim>\<open>scripts/batch_context_test.py\<close>) pass
  their results around as plain dictionaries.  A dictionary is modelled as an association
  list in insertion order, a Python value as the datatype below.  Floating-point numbers
  are modelled by exact rationals: the only float operations that decide anything are
  products of an integer token count with one of the literals 0.8, 0.85, 0.9 and 1.1,
  compared with an integer or truncated by \<^verbatim>\<open>int()\<close>.  The exact product is either an
  integer or at least a tenth (a twentieth for 0.85) away from one, so on token counts,
  which are far below \<open>2^53\<close>, the rounding of the double product changes none of these
  comparisons and truncations.
\<close>

datatype pyval =
    PNone
  | PBool bool
  | PInt int
  | PFloat rat
  | PStr string
  | PList "pyval list"
  | PDict "(string \<times> pyval) list"

type_synonym pydict = "(string \<times> pyval) list"

text \<open>\<^verbatim>\<open>d.get(k, default)\<close> and \<^verbatim>\<open>d.get(k)\<close>.\<close>

definition dict_get :: "pydict \<Rightarrow> string \<Rightarrow> pyval \<Rightarrow> pyval" where
  "dict_get d k dflt = (case map_of d k of Some v \<Rightarrow> v | None \<Rightarrow> dflt)"

text \<open>
  \<^verbatim>\<open>d[k]\<close>.  The scripts read this way only keys that the dictionary at hand holds
  (\<^verbatim>\<open>success\<close> always, the token count after \<^verbatim>\<open>success\<close> was found true), so
  \<^verbatim>\<open>KeyError\<close> is never raised; a missing key reads as \<open>PNone\<close> here.
\<close>

definition dict_item :: "pydict \<Rightarrow> string \<Rightarrow> pyval" where
  "dict_item d k = dict_get d k PNone"

text \<open>Truth value of an object, as \<^verbatim>\<open>if x\<close> tests it.\<close>

fun truthy :: "pyval \<Rightarrow> bool" where
  "truthy PNone = False"
| "truthy (PBool b) = b"
| "truthy (PInt i) = (i \<noteq> 0)"
| "truthy (PFloat r) = (r \<noteq> 0)"
| "truthy (PStr s) = (s \<noteq> [])"
| "truthy (PList xs) = (xs \<noteq> [])"
| "truthy (PDict d) = (d \<noteq> [])"

text \<open>The integer held by a value that the scripts use as a number.\<close>

fun int_of :: "pyval \<Rightarrow> int" where
  "int_of (PInt i) = i"
| "int_of (PBool b) = (if b then 1 else 0)"
| "int_of _ = 0"

text \<open>\<^verbatim>\<open>int(x)\<close> on a float truncates towards zero.\<close>

definition py_int :: "rat \<Rightarrow> int" where
  "py_int x = (if 0 \<le> x then \<lfloor>x\<rfloor> else \<lceil>x\<rceil>)"

text \<open>\<^verbatim>\<open>round(x, n)\<close>: to \<open>n\<close> decimals, ties to the even neighbour.\<close>

definition round_half_even :: "rat \<Rightarrow> int" where
  "round_half_even x =
     (let f = \<lfloor>x\<rfloor>; d = x - of_int f
      in if d < 1 / 2 then f else if 1 / 2 < d then f + 1 else if even f then f else f + 1)"

definition py_round :: "rat \<Rightarrow> nat \<Rightarrow> rat" where
  "py_round x n = of_int (round_half_even (x * 10 ^ n)) / 10 ^ n"

text \<open>\<^verbatim>\<open>s * n\<close> on a string: \<open>n\<close> copies, none when \<open>n \<le> 0\<close>.\<close>

definition py_repeat :: "string \<Rightarrow> int \<Rightarrow> string" where
  "py_repeat s n = concat (replicate (nat n) s)"

text \<open>\<^verbatim>\<open>str(n)\<close> of an integer, as the f-strings print it.\<close>

definition digit_char :: "nat \<Rightarrow> char" where
  "digit_char d = char_of (48 + d)"

function str_nat :: "nat \<Rightarrow> string" where
  "str_nat n = (if n < 10 then [digit_char n] else str_nat (n div 10) @ [digit_char (n mod 10)])"
  by pat_completeness auto
termination
  by (relation "measure (\<lambda>n. n)") auto

declare str_nat.simps [simp del]

definition str_int :: "int \<Rightarrow> string" where
  "str_int i = (if i < 0 then CHR ''-'' # str_nat (nat (- i)) else str_nat (nat i))"

definition opt_int :: "int option \<Rightarrow> pyval" where
  "opt_int x = (case x of None \<Rightarrow> PNone | Some i \<Rightarrow> PInt i)"

section \<open>The serving endpoint\<close>

text \<open>
  \<^verbatim>\<open>requests.post(f'{OLLAMA_URL}/api/generate', json={...}, timeout=...)\<close> is the only
  contact with the model server.  The server is a black box: a function from the request
  to what the call does.  The call either returns a response, with the wall-clock time
  the script measured around it, or raises; \<^verbatim>\<open>requests.Timeout\<close> is kept apart from
  every other exception because one script catches it separately.  The exception carries
  the text \<^verbatim>\<open>str(e)\<close>.  Of the response body only the two counters the scripts read are
  kept, as integers; \<open>None\<close> is a body without the key.  An exception raised while the
  body is read is caught by the same handlers as one raised by the call, and is not
  modelled apart from it.
\<close>

record request =
  rq_model :: string
  rq_prompt :: string
  rq_options :: pydict
  rq_timeout :: int

record response =
  status_code :: int
  resp_text :: string
  prompt_eval_count :: "int option"
  eval_count :: "int option"

datatype exn = Timeout string | OtherException string

datatype post_outcome = Responded response rat | Raised exn

type_synonym server = "request \<Rightarrow> post_outcome"

definition json_get :: "int option \<Rightarrow> int \<Rightarrow> int" where
  "json_get field dflt = (case field of Some c \<Rightarrow> c | None \<Rightarrow> dflt)"

section \<open>\<^verbatim>\<open>scripts/context_length_test.py\<close>\<close>

definition count_tokens_approx :: "string \<Rightarrow> int" where
  "count_tokens_approx txt = int (length txt) div 4"

definition generate_test_prompt :: "int \<Rightarrow> string" where
  "generate_test_prompt target_tokens =
     (let base = ''The quick brown fox jumps over the lazy dog. '';
          repeats = max 1 (target_tokens div 12);
          padding = py_repeat base repeats
      in ''Please summarize the following text in 2-3 sentences:\<newline>\<newline>''
           @ padding @ ''\<newline>\<newline>Summary:'')"

definition test_single_context ::
  "server \<Rightarrow> string \<Rightarrow> int \<Rightarrow> int option \<Rightarrow> int \<Rightarrow> pydict" where
  "test_single_context srv model_name target_tokens num_ctx timeout =
     (let prompt = generate_test_prompt target_tokens;
          actual_tokens = count_tokens_approx prompt;
          options = (case num_ctx of
                       None \<Rightarrow> [(''num_predict'', PInt 100)]
                     | Some n \<Rightarrow> [(''num_predict'', PInt 100), (''num_ctx'', PInt n)])
      in case srv \<lparr>rq_model = model_name, rq_prompt = prompt,
                   rq_options = options, rq_timeout = timeout\<rparr> of
           Responded resp elapsed \<Rightarrow>
             if status_code resp = 200 then
               (let prompt_eval = json_get (prompt_eval_count resp) 0;
                    truncated = (of_int prompt_eval < of_int actual_tokens * (9 / 10 :: rat))
                in [(''success'', PBool True),
                    (''target_tokens'', PInt target_tokens),
                    (''actual_tokens_approx'', PInt actual_tokens),
                    (''num_ctx'', opt_int num_ctx),
                    (''prompt_eval_count'', PInt prompt_eval),
                    (''eval_count'', PInt (json_get (eval_count resp) 0)),
                    (''response_time_s'', PFloat (py_round elapsed 2)),
                    (''truncated'', PBool truncated),
                    (''utilization'',
                       if 0 < actual_tokens
                       then PFloat (py_round (of_int prompt_eval / of_int actual_tokens * 100) 1)
                       else PInt 0)])
             else
               [(''success'', PBool False),
                (''target_tokens'', PInt target_tokens),
                (''num_ctx'', opt_int num_ctx),
                (''error'', PStr (''HTTP '' @ str_int (status_code resp) @ '': ''
                                   @ take 200 (resp_text resp)))]
         | Raised (Timeout msg) \<Rightarrow>
             [(''success'', PBool False),
              (''target_tokens'', PInt target_tokens),
              (''num_ctx'', opt_int num_ctx),
              (''error'', PStr (''Timeout after '' @ str_int timeout @ ''s''))]
         | Raised (OtherException msg) \<Rightarrow>
             [(''success'', PBool False),
              (''target_tokens'', PInt target_tokens),
              (''num_ctx'', opt_int num_ctx),
              (''error'', PStr msg)])"

text \<open>
  Phase 1 of \<^verbatim>\<open>find_max_context\<close>: the \<^verbatim>\<open>for size in test_sizes\<close> loop.  The loop's
  variables are \<open>default_max\<close> and the list \<^verbatim>\<open>results["tests"]\<close>; a \<^verbatim>\<open>break\<close> returns them.
\<close>

fun phase1 :: "server \<Rightarrow> string \<Rightarrow> int \<Rightarrow> int list \<Rightarrow> int \<Rightarrow> pyval list \<Rightarrow> int \<times> pyval list" where
  "phase1 srv model_name timeout [] default_max tests = (default_max, tests)"
| "phase1 srv model_name timeout (sz # rest) default_max tests =
     (let result = test_single_context srv model_name sz None timeout;
          tests = tests @ [PDict result]
      in if truthy (dict_item result ''success'') then
           if \<not> truthy (dict_get result ''truncated'' (PBool False)) then
             phase1 srv model_name timeout rest
               (int_of (dict_item result ''prompt_eval_count'')) tests
           else (default_max, tests)
         else (default_max, tests))"

text \<open>
  Phase 2: the \<^verbatim>\<open>for num_ctx in num_ctx_values\<close> loop, with its variables
  \<open>max_with_numctx\<close>, \<open>best_numctx\<close> and the test list.
\<close>

fun phase2 ::
  "server \<Rightarrow> string \<Rightarrow> int \<Rightarrow> int list \<Rightarrow> int \<Rightarrow> int option \<Rightarrow> pyval list
     \<Rightarrow> int \<times> int option \<times> pyval list" where
  "phase2 srv model_name timeout [] max_with_numctx best_numctx tests =
     (max_with_numctx, best_numctx, tests)"
| "phase2 srv model_name timeout (num_ctx # rest) max_with_numctx best_numctx tests =
     (let test_size = py_int (of_int num_ctx * (9 / 10));
          result = test_single_context srv model_name test_size (Some num_ctx) timeout;
          tests = tests @ [PDict result]
      in if truthy (dict_item result ''success'') then
           (let prompt_eval = int_of (dict_item result ''prompt_eval_count'')
            in if max_with_numctx < prompt_eval then
                 phase2 srv model_name timeout rest prompt_eval (Some num_ctx) tests
               else if of_int prompt_eval \<le> of_int max_with_numctx * (11 / 10 :: rat) then
                 (max_with_numctx, best_numctx, tests)
               else phase2 srv model_name timeout rest max_with_numctx best_numctx tests)
         else (max_with_numctx, best_numctx, tests))"

definition test_sizes :: "int list" where
  "test_sizes = [2000, 4000, 8000, 16000]"

definition num_ctx_values :: "int list" where
  "num_ctx_values = [8192, 16384, 32768, 65536, 131072]"

text \<open>
  \<^verbatim>\<open>find_max_context(model_name, timeout)\<close>.  \<open>now\<close> is
  \<^verbatim>\<open>datetime.now().isoformat()\<close>.  The dictionary is built and assigned key by key as in
  the source; the test list, which the source appends to inside the loops, is stored once
  the loops are over.
\<close>

definition find_max_context :: "server \<Rightarrow> string \<Rightarrow> string \<Rightarrow> int \<Rightarrow> pydict" where
  "find_max_context srv now model_name timeout =
     (let results = [(''model'', PStr model_name),
                     (''timestamp'', PStr now),
                     (''default_context'', PNone),
                     (''max_context_with_num_ctx'', PNone),
                     (''recommended_context'', PNone),
                     (''tests'', PList [])];
          (default_max, tests) = phase1 srv model_name timeout test_sizes 0 [];
          results = AList.update ''default_context'' (PInt default_max) results;
          (max_with_numctx, best_numctx, tests) =
             phase2 srv model_name timeout num_ctx_values default_max None tests;
          results = AList.update ''tests'' (PList tests) results;
          results = AList.update ''max_context_with_num_ctx'' (PInt max_with_numctx) results;
          results = AList.update ''optimal_num_ctx'' (opt_int best_numctx) results;
          results = AList.update ''recommended_context''
                      (PInt (py_int (of_int max_with_numctx * (8 / 10)))) results
      in results)"

section \<open>\<^verbatim>\<open>scripts/smart_context_test.py\<close>\<close>

text \<open>
  The metadata endpoint \<^verbatim>\<open>/api/show\<close>: the call returns a status and a JSON body, or
  raises.  \<^verbatim>\<open>x.get(k, default)\<close> on a JSON value raises for anything but an object, which
  \<^verbatim>\<open>get_model_info\<close> swallows with its bare \<^verbatim>\<open>except\<close>.
\<close>

datatype show_outcome = ShowResponded int pyval | ShowRaised

fun py_get :: "pyval \<Rightarrow> string \<Rightarrow> pyval \<Rightarrow> pyval option" where
  "py_get (PDict d) k dflt = Some (dict_get d k dflt)"
| "py_get _ k dflt = None"

definition get_model_info :: "(string \<Rightarrow> show_outcome) \<Rightarrow> string \<Rightarrow> pydict" where
  "get_model_info api_show model =
     (case api_show model of
        ShowResponded code data \<Rightarrow>
          if code = 200 then
            (case py_get data ''parameters'' (PStr []) of
               None \<Rightarrow> []
             | Some params \<Rightarrow>
                (case py_get data ''details'' (PDict []) of
                   None \<Rightarrow> []
                 | Some details \<Rightarrow>
                    (case (py_get details ''family'' (PStr ''unknown''),
                           py_get details ''parameter_size'' (PStr ''unknown''),
                           py_get details ''context_length'' PNone) of
                       (Some family, Some parameter_size, Some context_length) \<Rightarrow>
                         [(''parameters'', params),
                          (''family'', family),
                          (''parameter_size'', parameter_size),
                          (''context_length'', context_length)]
                     | _ \<Rightarrow> [])))
          else []
      | ShowRaised \<Rightarrow> [])"

fun exn_str :: "exn \<Rightarrow> string" where
  "exn_str (Timeout msg) = msg"
| "exn_str (OtherException msg) = msg"

text \<open>\<^verbatim>\<open>test_context(model, num_ctx, timeout)\<close>: one handler for every exception.\<close>

definition test_context :: "server \<Rightarrow> string \<Rightarrow> int \<Rightarrow> int \<Rightarrow> pydict" where
  "test_context srv model num_ctx timeout =
     (let prompt = py_repeat ''test '' (num_ctx div 2);
          input_approx = int (length prompt) div 4
      in case srv \<lparr>rq_model = model, rq_prompt = ''Summarize: '' @ prompt,
                   rq_options = [(''num_ctx'', PInt num_ctx), (''num_predict'', PInt 10)],
                   rq_timeout = timeout\<rparr> of
           Responded resp elapsed \<Rightarrow>
             if status_code resp = 200 then
               (let tokens = json_get (prompt_eval_count resp) 0
                in [(''success'', PBool True),
                    (''input_approx'', PInt input_approx),
                    (''tokens_processed'', PInt tokens),
                    (''truncated'', PBool (of_int tokens < of_int input_approx * (8 / 10 :: rat))),
                    (''time_s'', PFloat (py_round elapsed 2))])
             else [(''success'', PBool False),
                   (''error'', PStr (''HTTP '' @ str_int (status_code resp)))]
         | Raised e \<Rightarrow>
             [(''success'', PBool False), (''error'', PStr (take 50 (exn_str e)))])"

text \<open>
  The \<^verbatim>\<open>for num_ctx in test_sizes\<close> loop of \<^verbatim>\<open>find_native_limit\<close>, with its variables
  \<open>prev_tokens\<close>, \<open>native_limit\<close>, \<open>hardware_limit\<close> and the test list.
\<close>

fun native_loop ::
  "server \<Rightarrow> string \<Rightarrow> int list \<Rightarrow> int \<Rightarrow> int \<Rightarrow> int \<Rightarrow> pyval list
     \<Rightarrow> int \<times> int \<times> int \<times> pyval list" where
  "native_loop srv model [] prev_tokens native_limit hardware_limit tests =
     (prev_tokens, native_limit, hardware_limit, tests)"
| "native_loop srv model (num_ctx # rest) prev_tokens native_limit hardware_limit tests =
     (let test = test_context srv model num_ctx 300;
          tests = tests @ [PDict (AList.update ''num_ctx'' (PInt num_ctx) test)]
      in if \<not> truthy (dict_item test ''success'') then
           (prev_tokens, native_limit, prev_tokens, tests)
         else
           (let tokens = int_of (dict_item test ''tokens_processed'')
            in if truthy (dict_get test ''truncated'' PNone) then
                 (prev_tokens, tokens, hardware_limit, tests)
               else if of_int tokens \<le> of_int prev_tokens * (11 / 10 :: rat) \<and> 0 < prev_tokens then
                 (prev_tokens, tokens, hardware_limit, tests)
               else native_loop srv model rest tokens tokens hardware_limit tests))"

definition native_test_sizes :: "int list" where
  "native_test_sizes = [4096, 8192, 16384, 32768, 65536, 131072, 196608]"

definition find_native_limit ::
  "server \<Rightarrow> (string \<Rightarrow> show_outcome) \<Rightarrow> string \<Rightarrow> string \<Rightarrow> pydict" where
  "find_native_limit srv api_show now model =
     (let info = get_model_info api_show model;
          result = [(''model'', PStr model),
                    (''timestamp'', PStr now),
                    (''info'', PDict info),
                    (''tests'', PList [])];
          (prev_tokens, native_limit, hardware_limit, tests) =
             native_loop srv model native_test_sizes 0 0 0 [];
          result = AList.update ''tests'' (PList tests) result;
          result = AList.update ''native_context'' (PInt native_limit) result;
          result = AList.update ''hardware_limit''
                     (if hardware_limit \<noteq> 0 then PInt hardware_limit else PStr ''not reached'')
                     result;
          result = AList.update ''recommended_input''
                     (PInt (py_int (of_int native_limit * (9 / 10)))) result
      in result)"

definition output_prompt :: string where
  "output_prompt = ''Write a very long detailed technical document. Include many sections, subsections, and detailed explanations. Continue until you reach your maximum. Section 1:''"

text \<open>
  The \<^verbatim>\<open>for num_predict in [...]\<close> loop of \<^verbatim>\<open>test_output_limit\<close>, with \<open>max_output\<close> and
  the test list.  Here the call to the server sits in the loop itself, and a failed probe
  leaves no test record.
\<close>

fun output_loop ::
  "server \<Rightarrow> string \<Rightarrow> int \<Rightarrow> int list \<Rightarrow> int \<Rightarrow> pyval list \<Rightarrow> int \<times> pyval list" where
  "output_loop srv model num_ctx [] max_output tests = (max_output, tests)"
| "output_loop srv model num_ctx (num_predict # rest) max_output tests =
     (case srv \<lparr>rq_model = model, rq_prompt = output_prompt,
                rq_options = [(''num_ctx'', PInt num_ctx), (''num_predict'', PInt num_predict)],
                rq_timeout = 600\<rparr> of
        Responded resp elapsed \<Rightarrow>
          if status_code resp = 200 then
            (let output_tokens = json_get (eval_count resp) 0;
                 test_record = [(''num_predict'', PInt num_predict),
                                (''actual_output'', PInt output_tokens),
                                (''time_s'', PFloat (py_round elapsed 2)),
                                (''tok_per_sec'',
                                   if 0 < elapsed
                                   then PFloat (py_round (of_int output_tokens / elapsed) 1)
                                   else PInt 0)];
                 tests = tests @ [PDict test_record]
             in if output_tokens < num_predict
                   \<and> of_int output_tokens \<le> of_int max_output * (11 / 10 :: rat) then
                  (max_output, tests)
                else output_loop srv model num_ctx rest (max max_output output_tokens) tests)
          else (max_output, tests)
      | Raised e \<Rightarrow> (max_output, tests))"

definition num_predict_values :: "int list" where
  "num_predict_values = [1024, 2048, 4096, 8192, 16384]"

definition test_output_limit :: "server \<Rightarrow> string \<Rightarrow> int \<Rightarrow> pydict" where
  "test_output_limit srv model num_ctx =
     (let (max_output, tests) = output_loop srv model num_ctx num_predict_values 0 []
      in [(''tests'', PList tests), (''max_output'', PInt max_output)])"

definition test_model_complete ::
  "server \<Rightarrow> (string \<Rightarrow> show_outcome) \<Rightarrow> string \<Rightarrow> string \<Rightarrow> pydict" where
  "test_model_complete srv api_show now model =
     (let result = find_native_limit srv api_show now model;
          ctx = min (int_of (dict_get result ''native_context'' (PInt 8192))) 131072;
          output_result = test_output_limit srv model ctx
      in AList.update ''output'' (PDict output_result) result)"

text \<open>
  The per-model loop of \<^verbatim>\<open>main\<close>: \<open>run\<close> is the body of the \<^verbatim>\<open>try\<close>, returning the
  model's result or the text of the exception it raised; either way one entry is
  appended and the loop goes on.
\<close>

fun main_loop :: "(string \<Rightarrow> string + pydict) \<Rightarrow> string list \<Rightarrow> pyval list \<Rightarrow> pyval list" where
  "main_loop run [] all_results = all_results"
| "main_loop run (model # rest) all_results =
     (case run model of
        Inr result \<Rightarrow> main_loop run rest (all_results @ [PDict result])
      | Inl e \<Rightarrow> main_loop run rest
                  (all_results @ [PDict [(''model'', PStr model), (''error'', PStr e)]]))"

text \<open>\<^verbatim>\<open>main()\<close> up to the summary; \<open>clock\<close> gives the time at which a model is tested.\<close>

definition main ::
  "server \<Rightarrow> (string \<Rightarrow> show_outcome) \<Rightarrow> (string \<Rightarrow> string) \<Rightarrow> string list \<Rightarrow> pyval list" where
  "main srv api_show clock argv =
     (let models = (if 1 < length argv then tl argv else [''gpt-oss:20b''])
      in main_loop (\<lambda>model. Inr (test_model_complete srv api_show (clock model) model)) models [])"

section \<open>\<^verbatim>\<open>scripts/batch_context_test.py\<close>\<close>

text \<open>\<^verbatim>\<open>test_context\<close> of the batch script returns a triple
  \<^verbatim>\<open>(success, tokens_or_error, time_seconds)\<close>.\<close>

definition batch_test_context :: "server \<Rightarrow> string \<Rightarrow> int \<Rightarrow> int \<Rightarrow> bool \<times> pyval \<times> rat" where
  "batch_test_context srv model num_ctx timeout =
     (let prompt = py_repeat ''test '' (num_ctx div 2)
      in case srv \<lparr>rq_model = model, rq_prompt = ''Summarize: '' @ prompt,
                   rq_options = [(''num_ctx'', PInt num_ctx), (''num_predict'', PInt 10)],
                   rq_timeout = timeout\<rparr> of
           Responded resp elapsed \<Rightarrow>
             if status_code resp = 200
             then (True, PInt (json_get (prompt_eval_count resp) 0), elapsed)
             else (False, PStr (''HTTP '' @ str_int (status_code resp)), 0)
         | Raised e \<Rightarrow> (False, PStr (take 50 (exn_str e)), 0))"

fun batch_loop ::
  "server \<Rightarrow> string \<Rightarrow> int list \<Rightarrow> int \<Rightarrow> int \<Rightarrow> pyval list \<Rightarrow> int \<times> int \<times> pyval list" where
  "batch_loop srv model [] max_successful max_tokens tests = (max_successful, max_tokens, tests)"
| "batch_loop srv model (ctx # rest) max_successful max_tokens tests =
     (let (ok, tokens_or_error, elapsed) = batch_test_context srv model ctx 300;
          test_record = [(''num_ctx'', PInt ctx), (''success'', PBool ok)]
      in if ok then
           batch_loop srv model rest ctx (int_of tokens_or_error)
             (tests @ [PDict (AList.update ''time_s'' (PFloat (py_round elapsed 2))
                               (AList.update ''tokens'' tokens_or_error test_record))])
         else
           (max_successful, max_tokens,
            tests @ [PDict (AList.update ''error'' tokens_or_error test_record)]))"

definition context_sizes :: "int list" where
  "context_sizes = [4096, 8192, 16384, 32768, 65536, 131072, 196608, 262144, 524288]"

definition batch_find_max_context :: "server \<Rightarrow> string \<Rightarrow> string \<Rightarrow> pydict" where
  "batch_find_max_context srv now model =
     (let result = [(''model'', PStr model), (''timestamp'', PStr now), (''tests'', PList [])];
          (max_successful, max_tokens, tests) = batch_loop srv model context_sizes 0 0 [];
          result = AList.update ''tests'' (PList tests) result;
          result = AList.update ''max_num_ctx'' (PInt max_successful) result;
          result = AList.update ''max_tokens'' (PInt max_tokens) result;
          result = AList.update ''recommended_ctx''
                     (PInt (py_int (of_int max_successful * (85 / 100)))) result
      in result)"

section \<open>Reading a probe's outcome\<close>

text \<open>
  Whether a call to the endpoint came back with status 200, and the prompt token count it
  then reported (\<^verbatim>\<open>data.get('prompt_eval_count', 0)\<close>).  The two requests the probing
  functions send are abbreviated.
\<close>

definition is_ok :: "post_outcome \<Rightarrow> bool" where
  "is_ok out = (case out of Responded resp elapsed \<Rightarrow> status_code resp = 200 | Raised e \<Rightarrow> False)"

definition reported_prompt_tokens :: "post_outcome \<Rightarrow> int" where
  "reported_prompt_tokens out =
     (case out of Responded resp elapsed \<Rightarrow> json_get (prompt_eval_count resp) 0 | Raised e \<Rightarrow> 0)"

abbreviation window_request :: "string \<Rightarrow> int \<Rightarrow> int \<Rightarrow> request" where
  "window_request m w t \<equiv>
     \<lparr>rq_model = m, rq_prompt = ''Summarize: '' @ py_repeat ''test '' (w div 2),
      rq_options = [(''num_ctx'', PInt w), (''num_predict'', PInt 10)], rq_timeout = t\<rparr>"

abbreviation single_request :: "string \<Rightarrow> int \<Rightarrow> int option \<Rightarrow> int \<Rightarrow> request" where
  "single_request m target nc t \<equiv>
     \<lparr>rq_model = m, rq_prompt = generate_test_prompt target,
      rq_options = (case nc of None \<Rightarrow> [(''num_predict'', PInt 100)]
                    | Some n \<Rightarrow> [(''num_predict'', PInt 100), (''num_ctx'', PInt n)]),
      rq_timeout = t\<rparr>"

section \<open>Example servers\<close>

text \<open>A successful reply reporting \<open>n\<close> prompt tokens, and the window a request asks for.\<close>

definition ok_response :: "int \<Rightarrow> post_outcome" where
  "ok_response n =
     Responded \<lparr>status_code = 200, resp_text = [], prompt_eval_count = Some n,
                eval_count = Some 10\<rparr> 1"

definition window_of :: "request \<Rightarrow> int option" where
  "window_of rq = (case map_of (rq_options rq) ''num_ctx'' of Some (PInt n) \<Rightarrow> Some n | _ \<Rightarrow> None)"


text \<open>
  A server whose honoured prompt size grows from 7400 to 30000 tokens, then by about 3%
  to 31000 at window 32768, and doubles again at window 65536.
\<close>

definition plateau_server :: server where
  "plateau_server rq =
     (case window_of rq of
        None \<Rightarrow> Raised (OtherException ''connection refused'')
      | Some n \<Rightarrow>
          if n = 4096 then ok_response 3700
          else if n = 8192 then ok_response 7400
          else if n = 16384 then ok_response 30000
          else if n = 32768 then ok_response 31000
          else if n = 65536 then ok_response 60000
          else Raised (OtherException ''connection refused''))"

text \<open>
  A server that honours 3000 prompt tokens at window 4096 and falls back to 2048 at
  window 8192.
\<close>

definition shrink_server :: server where
  "shrink_server rq =
     (case window_of rq of
        None \<Rightarrow> Raised (OtherException ''connection refused'')
      | Some n \<Rightarrow>
          if n = 4096 then ok_response 3000
          else if n = 8192 then ok_response 2048
          else Raised (OtherException ''connection refused''))"

text \<open>
  The end-to-end scenario: 4090 tokens at window 4096, 8180 at window 8192, and a refused
  connection for every other request.
\<close>

definition scenario_server :: server where
  "scenario_server rq =
     (case window_of rq of
        None \<Rightarrow> Raised (OtherException ''Connection refused'')
      | Some n \<Rightarrow>
          if n = 4096 then ok_response 4090
          else if n = 8192 then ok_response 8180
          else Raised (OtherException ''Connection refused''))"

text \<open>A server that honours 2050 prompt tokens at window 4096 and nothing else.\<close>

definition batch_server :: server where
  "batch_server rq =
     (case window_of rq of
        None \<Rightarrow> Raised (OtherException ''Connection refused'')
      | Some n \<Rightarrow>
          if n = 4096 then ok_response 2050
          else Raised (OtherException ''Connection refused''))"

text \<open>
  A server that answers budgets 1024 and 2048 with 500 and 540 generated tokens, one that
  honours 4090 prompt tokens at window 4096 and nothing else, and one that refuses every
  connection.
\<close>

definition output_server :: server where
  "output_server rq =
     (case map_of (rq_options rq) ''num_predict'' of
        Some (PInt n) \<Rightarrow>
          if n = 1024 then
            Responded \<lparr>status_code = 200, resp_text = [], prompt_eval_count = Some 30,
                       eval_count = Some 500\<rparr> 5
          else if n = 2048 then
            Responded \<lparr>status_code = 200, resp_text = [], prompt_eval_count = Some 30,
                       eval_count = Some 540\<rparr> 5
          else Raised (OtherException ''Connection refused'')
      | _ \<Rightarrow> Raised (OtherException ''Connection refused''))"

definition drop_server :: server where
  "drop_server rq =
     (case window_of rq of
        None \<Rightarrow> Raised (OtherException ''Connection refused'')
      | Some n \<Rightarrow>
          if n = 4096 then ok_response 4090
          else Raised (OtherException ''Connection refused''))"

abbreviation refusing_server :: server where
  "refusing_server \<equiv> \<lambda>rq. Raised (OtherException ''Connection refused'')"

text \<open>
  The \<^verbatim>\<open>hardware_limit\<close> entry as the specification describes it, read off the recorded tests: the
  token count of the last successful probe when the last probe of all failed and that
  count is positive, the string otherwise.
\<close>

fun hw_from_rev :: "pyval list \<Rightarrow> pyval" where
  "hw_from_rev (PDict failed # PDict before # rest) =
     (if \<not> truthy (dict_item failed ''success'')
         \<and> 0 < int_of (dict_item before ''tokens_processed'')
      then PInt (int_of (dict_item before ''tokens_processed''))
      else PStr ''not reached'')"
| "hw_from_rev _ = PStr ''not reached''"

definition hardware_limit_reported :: "pyval list \<Rightarrow> pyval" where
  "hardware_limit_reported tests = hw_from_rev (rev tests)"

section \<open>Auxiliary facts\<close>

lemma length_py_repeat: "length (py_repeat s n) = length s * nat n"
  by (simp add: py_repeat_def length_concat sum_list_replicate)

lemma count_tokens_approx_prompt:
  "count_tokens_approx (generate_test_prompt target) = (65 + 45 * max 1 (target div 12)) div 4"
  by (simp add: count_tokens_approx_def generate_test_prompt_def Let_def length_py_repeat max_def)


lemma test_context_success:
  "dict_item (test_context srv m w t) ''success'' = PBool (is_ok (srv (window_request m w t)))"
  by (simp add: test_context_def Let_def dict_item_def dict_get_def is_ok_def
           split: post_outcome.splits)

lemma test_context_tokens:
  "is_ok (srv (window_request m w t)) \<Longrightarrow>
     dict_item (test_context srv m w t) ''tokens_processed''
       = PInt (reported_prompt_tokens (srv (window_request m w t)))"
  by (auto simp add: test_context_def Let_def dict_item_def dict_get_def is_ok_def
           reported_prompt_tokens_def split: post_outcome.splits)

lemma test_context_truncated:
  "is_ok (srv (window_request m w t)) \<Longrightarrow>
     dict_get (test_context srv m w t) ''truncated'' d
       = PBool (of_int (reported_prompt_tokens (srv (window_request m w t)))
                  < of_int (int (5 * nat (w div 2)) div 4) * (8 / 10 :: rat))"
  by (simp add: test_context_def Let_def dict_item_def dict_get_def is_ok_def
           reported_prompt_tokens_def length_py_repeat split: post_outcome.splits)

lemma test_single_context_success:
  "dict_item (test_single_context srv m target nc t) ''success''
     = PBool (is_ok (srv (single_request m target nc t)))"
  by (simp add: test_single_context_def Let_def dict_item_def dict_get_def is_ok_def
           split: post_outcome.splits exn.splits)

lemma test_single_context_prompt_eval:
  "is_ok (srv (single_request m target nc t)) \<Longrightarrow>
     dict_item (test_single_context srv m target nc t) ''prompt_eval_count''
       = PInt (reported_prompt_tokens (srv (single_request m target nc t)))"
  by (auto simp add: test_single_context_def Let_def dict_item_def dict_get_def is_ok_def
           reported_prompt_tokens_def split: post_outcome.splits exn.splits)

lemma test_single_context_truncated:
  "is_ok (srv (single_request m target nc t)) \<Longrightarrow>
     dict_get (test_single_context srv m target nc t) ''truncated'' d
       = PBool (of_int (reported_prompt_tokens (srv (single_request m target nc t)))
                  < of_int (count_tokens_approx (generate_test_prompt target)) * (9 / 10 :: rat))"
  by (simp add: test_single_context_def Let_def dict_item_def dict_get_def is_ok_def
           reported_prompt_tokens_def split: post_outcome.splits exn.splits)

lemmas probe_views = test_context_success test_context_tokens test_context_truncated
  test_single_context_success test_single_context_prompt_eval test_single_context_truncated
  window_of_def

lemmas outcome_defs = is_ok_def reported_prompt_tokens_def ok_response_def json_get_def

lemma phase2_max_ge:
  "max_with_numctx \<le> fst (phase2 srv m t xs max_with_numctx best tests)"
proof (induction xs arbitrary: max_with_numctx best tests)
  case Nil
  show ?case by simp
next
  case (Cons x xs)
  show ?case
    using Cons.IH [of "int_of (dict_item (test_single_context srv m (py_int (of_int x * (9 / 10))) (Some x) t) ''prompt_eval_count'')"]
          Cons.IH [of max_with_numctx]
    by (auto simp: Let_def intro: order_trans less_imp_le)
qed

lemma phase2_prefix:
  "fst (phase2 srv m t xs mx b ts) \<le> fst (phase2 srv m t (xs @ ys) mx b ts)"
proof (induction xs arbitrary: mx b ts)
  case Nil
  show ?case by (simp add: phase2_max_ge)
next
  case (Cons x xs)
  show ?case by (simp add: Let_def Cons.IH)
qed

lemma not_truncated_nonneg:
  assumes "\<not> (of_int tok < of_int (int (5 * nat (w div 2)) div 4) * (8 / 10 :: rat))"
  shows "0 \<le> tok"
proof -
  have "int (5 * nat (w div 2)) div 4 = int (5 * nat (w div 2) div 4)"
    by (simp add: zdiv_int)
  then have "(0::int) \<le> int (5 * nat (w div 2)) div 4"
    by (simp only: of_nat_0_le_iff)
  then have "(0::rat) \<le> of_int (int (5 * nat (w div 2)) div 4) * (8 / 10)"
    by simp
  with assms have "(0::rat) \<le> of_int tok" by linarith
  then show ?thesis by simp
qed

lemma not_plateau_ge:
  assumes "0 \<le> tok" and "\<not> (of_int tok \<le> of_int p * (11 / 10 :: rat) \<and> 0 < p)"
  shows "p \<le> tok"
proof (cases "0 < p")
  case False
  with assms show ?thesis by simp
next
  case True
  with assms have "of_int p * (11 / 10 :: rat) < of_int tok" by simp
  moreover have "(of_int p :: rat) \<le> of_int p * (11 / 10)" using True by simp
  ultimately have "(of_int p :: rat) < of_int tok" by linarith
  then show ?thesis by simp
qed

lemma native_loop_prev_ge:
  "p \<le> fst (native_loop srv m xs p n h ts)"
proof (induction xs arbitrary: p n h ts)
  case Nil
  show ?case by simp
next
  case (Cons x xs)
  show ?case
  proof (cases "is_ok (srv (window_request m x 300))")
    case False
    then show ?thesis by (simp add: Let_def test_context_success)
  next
    case True
    let ?tok = "reported_prompt_tokens (srv (window_request m x 300))"
    show ?thesis
    proof (cases "of_int ?tok < of_int (int (5 * nat (x div 2)) div 4) * (8 / 10 :: rat)")
      case trunc: True
      with True show ?thesis
        by (simp add: Let_def test_context_success test_context_tokens test_context_truncated)
    next
      case nt: False
      show ?thesis
      proof (cases "of_int ?tok \<le> of_int p * (11 / 10 :: rat) \<and> 0 < p")
        case pl: True
        with True nt show ?thesis
          by (simp add: Let_def test_context_success test_context_tokens test_context_truncated)
      next
        case np: False
        have "p \<le> ?tok" using not_plateau_ge [OF not_truncated_nonneg [OF nt] np] .
        also have "?tok \<le> fst (native_loop srv m xs ?tok ?tok h
             (ts @ [PDict (AList.update ''num_ctx'' (PInt x) (test_context srv m x 300))]))"
          by (rule Cons.IH)
        finally show ?thesis using True nt np
          by (simp add: Let_def test_context_success test_context_tokens test_context_truncated)
      qed
    qed
  qed
qed

lemma native_loop_prefix:
  "fst (native_loop srv m xs p n h ts) \<le> fst (native_loop srv m (xs @ ys) p n h ts)"
proof (induction xs arbitrary: p n h ts)
  case Nil
  show ?case by (simp add: native_loop_prev_ge)
next
  case (Cons x xs)
  show ?case by (simp add: Let_def Cons.IH)
qed


lemma dict_item_update:
  "dict_item (AList.update k v d) k' = (if k' = k then v else dict_item d k')"
  by (simp add: dict_item_def dict_get_def update_conv')

lemma dict_get_update:
  "dict_get (AList.update k v d) k' dflt = (if k' = k then v else dict_get d k' dflt)"
  by (simp add: dict_get_def update_conv')

lemma native_loop_native:
  "native_loop srv m xs p p h ts = (p', n', h', ts') \<Longrightarrow>
     n' = p' \<or>
     (\<exists>rec. ts' \<noteq> [] \<and> last ts' = PDict rec
         \<and> dict_item rec ''success'' = PBool True
         \<and> dict_item rec ''tokens_processed'' = PInt n'
         \<and> (dict_get rec ''truncated'' PNone = PBool True
              \<or> (of_int n' \<le> of_int p' * (11 / 10 :: rat) \<and> 0 < p')))"
proof (induction xs arbitrary: p h ts)
  case Nil
  then show ?case by simp
next
  case (Cons x xs)
  let ?out = "srv (window_request m x 300)"
  let ?tok = "reported_prompt_tokens ?out"
  let ?ts = "ts @ [PDict (AList.update ''num_ctx'' (PInt x) (test_context srv m x 300))]"
  show ?case
  proof (cases "is_ok ?out")
    case False
    with Cons.prems show ?thesis by (simp add: Let_def test_context_success)
  next
    case True
    note views = test_context_success test_context_tokens test_context_truncated
      dict_item_update dict_get_update
    show ?thesis
    proof (cases "of_int ?tok < of_int (int (5 * nat (x div 2)) div 4) * (8 / 10 :: rat)")
      case trunc: True
      with True Cons.prems show ?thesis
        by (auto simp add: Let_def views)
    next
      case nt: False
      show ?thesis
      proof (cases "of_int ?tok \<le> of_int p * (11 / 10 :: rat) \<and> 0 < p")
        case pl: True
        with True nt Cons.prems show ?thesis
          by (auto simp add: Let_def views)
      next
        case np: False
        with True nt Cons.prems
        have "native_loop srv m xs ?tok ?tok h ?ts = (p', n', h', ts')"
          by (simp add: Let_def views split: if_splits)
        then show ?thesis by (rule Cons.IH)
      qed
    qed
  qed
qed

lemma floor_numeral_quotient:
  "\<lfloor>numeral a / numeral b :: rat\<rfloor> = numeral a div numeral b"
  using floor_divide_of_int_eq [of "numeral a" "numeral b", where ?'a = rat] by simp

lemma scenario_phase1:
  "phase1 scenario_server ''m1'' 180 test_sizes 0 []
     = (0, [PDict (test_single_context scenario_server ''m1'' 2000 None 180)])"
  by (simp add: test_sizes_def scenario_server_def probe_views outcome_defs Let_def)

lemma py_int_margin:
  assumes "0 \<le> n" and "0 \<le> c" and "c \<le> 1"
  shows "py_int (of_int n * c) = \<lfloor>of_int n * c\<rfloor>" and "py_int (of_int n * c) \<le> n"
proof -
  have nn: "(0::rat) \<le> of_int n * c" using assms by simp
  then show eq: "py_int (of_int n * c) = \<lfloor>of_int n * c\<rfloor>" by (simp add: py_int_def)
  have "of_int n * c \<le> (of_int n :: rat)"
    using assms by (simp add: mult_left_le)
  then have "\<lfloor>of_int n * c\<rfloor> \<le> \<lfloor>of_int n :: rat\<rfloor>" by (rule floor_mono)
  with eq show "py_int (of_int n * c) \<le> n" by simp
qed

lemma batch_loop_nonneg:
  "0 \<le> ms \<Longrightarrow> \<forall>x\<in>set xs. 0 \<le> x \<Longrightarrow> 0 \<le> fst (batch_loop srv m xs ms mt ts)"
proof (induction xs arbitrary: ms mt ts)
  case Nil
  then show ?case by simp
next
  case (Cons x xs)
  then show ?case by (simp add: Let_def split: prod.splits)
qed

lemma str_int_500: "str_int 500 = ''500''"
  by code_simp

lemma test_context_failed:
  "\<not> is_ok (srv (window_request m w t)) \<Longrightarrow>
     test_context srv m w t
       = [(''success'', PBool False),
          (''error'', PStr (case srv (window_request m w t) of
                              Responded resp elapsed \<Rightarrow> ''HTTP '' @ str_int (status_code resp)
                            | Raised e \<Rightarrow> take 50 (exn_str e)))]"
  by (auto simp add: test_context_def Let_def is_ok_def split: post_outcome.splits)

lemma main_loop_map:
  "main_loop (\<lambda>model. Inr (f model)) ms acc = acc @ map (\<lambda>model. PDict (f model)) ms"
  by (induction ms arbitrary: acc) simp_all

lemma reported_after_success:
  assumes "dict_item rec ''success'' = PBool True"
  shows "hardware_limit_reported (ts @ [PDict rec]) = PStr ''not reached''"
proof (cases "rev ts")
  case Nil
  then show ?thesis by (simp add: hardware_limit_reported_def)
next
  case (Cons y ys)
  with assms show ?thesis by (cases y) (simp_all add: hardware_limit_reported_def)
qed

lemma reported_after_failure:
  assumes "dict_item failed ''success'' = PBool False"
      and "dict_item rec ''tokens_processed'' = PInt p" and "0 \<le> p"
  shows "hardware_limit_reported (ts @ [PDict rec, PDict failed])
           = (if p \<noteq> 0 then PInt p else PStr ''not reached'')"
  using assms by (auto simp add: hardware_limit_reported_def)

lemma native_loop_hw:
  assumes "native_loop srv m xs p n 0 ts = (p', n', h', ts')"
      and "0 \<le> p"
      and "ts = [] \<longrightarrow> p = 0"
      and "ts \<noteq> [] \<longrightarrow> (\<exists>rec. last ts = PDict rec \<and> dict_item rec ''success'' = PBool True
                            \<and> dict_item rec ''tokens_processed'' = PInt p)"
  shows "(if h' \<noteq> 0 then PInt h' else PStr ''not reached'') = hardware_limit_reported ts'"
  using assms
proof (induction xs arbitrary: p n ts)
  case Nil
  show ?case
  proof (cases "ts = []")
    case True
    with Nil show ?thesis by (simp add: hardware_limit_reported_def)
  next
    case False
    with Nil.prems obtain rec where "last ts = PDict rec" "dict_item rec ''success'' = PBool True"
      by blast
    with False have "hardware_limit_reported ts = PStr ''not reached''"
      using reported_after_success [of rec "butlast ts"] by (metis append_butlast_last_id)
    with Nil.prems show ?thesis by simp
  qed
next
  case (Cons x xs)
  let ?out = "srv (window_request m x 300)"
  let ?tok = "reported_prompt_tokens ?out"
  let ?rec = "AList.update ''num_ctx'' (PInt x) (test_context srv m x 300)"
  note views = test_context_success test_context_tokens test_context_truncated
      dict_item_update dict_get_update
  show ?case
  proof (cases "is_ok ?out")
    case False
    then have f: "dict_item ?rec ''success'' = PBool False" by (simp add: views)
    from False Cons.prems(1) have res: "h' = p" "ts' = ts @ [PDict ?rec]"
      by (simp_all add: Let_def views)
    show ?thesis
    proof (cases "ts = []")
      case True
      with Cons.prems res show ?thesis by (simp add: hardware_limit_reported_def)
    next
      case nonempty: False
      with Cons.prems obtain rec where rec: "last ts = PDict rec"
          "dict_item rec ''tokens_processed'' = PInt p"
        by blast
      from nonempty rec(1) have "ts = butlast ts @ [PDict rec]"
        by (metis append_butlast_last_id)
      then have "ts' = butlast ts @ [PDict rec, PDict ?rec]" using res by simp
      with reported_after_failure [OF f rec(2) Cons.prems(2), of "butlast ts"] res
      show ?thesis by simp
    qed
  next
    case True
    then have s: "dict_item ?rec ''success'' = PBool True"
      and tk: "dict_item ?rec ''tokens_processed'' = PInt ?tok"
      by (simp_all add: views)
    show ?thesis
    proof (cases "of_int ?tok < of_int (int (5 * nat (x div 2)) div 4) * (8 / 10 :: rat)")
      case trunc: True
      with True Cons.prems(1) have "h' = 0" "ts' = ts @ [PDict ?rec]"
        by (simp_all add: Let_def views)
      with reported_after_success [OF s, of ts] show ?thesis by simp
    next
      case nt: False
      show ?thesis
      proof (cases "of_int ?tok \<le> of_int p * (11 / 10 :: rat) \<and> 0 < p")
        case pl: True
        with True nt Cons.prems(1) have "h' = 0" "ts' = ts @ [PDict ?rec]"
          by (simp_all add: Let_def views)
        with reported_after_success [OF s, of ts] show ?thesis by simp
      next
        case np: False
        with True nt Cons.prems(1)
        have step: "native_loop srv m xs ?tok ?tok 0 (ts @ [PDict ?rec]) = (p', n', h', ts')"
          by (simp add: Let_def views split: if_splits)
        have nonneg: "0 \<le> ?tok" by (rule not_truncated_nonneg [OF nt])
        show ?thesis
        proof (rule Cons.IH [OF step nonneg])
          show "ts @ [PDict ?rec] = [] \<longrightarrow> ?tok = 0" by simp
          show "ts @ [PDict ?rec] \<noteq> [] \<longrightarrow>
                  (\<exists>rec. last (ts @ [PDict ?rec]) = PDict rec
                      \<and> dict_item rec ''success'' = PBool True
                      \<and> dict_item rec ''tokens_processed'' = PInt ?tok)"
            using s tk by simp
        qed
      qed
    qed
  qed
qed

lemma output_loop_all_fail:
  assumes "\<forall>rq. rq_model rq = m \<longrightarrow> \<not> is_ok (srv rq)"
  shows "output_loop srv m c xs mo ts = (mo, ts)"
proof (cases xs)
  case Nil
  then show ?thesis by simp
next
  case (Cons x rest)
  let ?rq = "\<lparr>rq_model = m, rq_prompt = output_prompt,
              rq_options = [(''num_ctx'', PInt c), (''num_predict'', PInt x)],
              rq_timeout = 600\<rparr>"
  from assms have "\<not> is_ok (srv ?rq)" by simp
  then show ?thesis
    using Cons by (simp add: is_ok_def split: post_outcome.splits)
qed

section \<open>Properties of the scripts\<close>

text \<open>
  C1.  Whatever the server answers in either phase, the dictionary returned by
  \<^verbatim>\<open>find_max_context\<close> of \<^verbatim>\<open>context_length_test.py\<close> holds integers under
  \<^verbatim>\<open>default_context\<close> and \<^verbatim>\<open>max_context_with_num_ctx\<close>, and the second is at least the
  first: phase 2 starts from \<open>default_max\<close> and only ever replaces it by a larger count.
\<close>

theorem native_ge_default:
  "\<exists>d x. map_of (find_max_context srv now m t) ''default_context'' = Some (PInt d)
       \<and> map_of (find_max_context srv now m t) ''max_context_with_num_ctx'' = Some (PInt x)
       \<and> d \<le> x"
proof -
  obtain d ts where p1: "phase1 srv m t test_sizes 0 [] = (d, ts)"
    by (cases "phase1 srv m t test_sizes 0 []")
  obtain x b ts' where p2: "phase2 srv m t num_ctx_values d None ts = (x, b, ts')"
    by (cases "phase2 srv m t num_ctx_values d None ts")
  have "d \<le> x"
    using phase2_max_ge [of d srv m t num_ctx_values None ts] p2 by simp
  then show ?thesis
    by (simp add: find_max_context_def p1 p2)
qed

text \<open>
  C2.  A probe that the server answers with status 200 is flagged \<^verbatim>\<open>truncated\<close> exactly
  when the reported prompt token count is below the approximate size of the prompt sent
  times the script's threshold: 0.9 in \<^verbatim>\<open>test_single_context\<close> of
  \<^verbatim>\<open>context_length_test.py\<close>, where the approximate size is a quarter of the prompt's
  length, and 0.8 in \<^verbatim>\<open>test_context\<close> of \<^verbatim>\<open>smart_context_test.py\<close>.  Both constants lie
  between 0.8 and 0.9.  A probe of about 16000 tokens (target 16000 in the first script,
  estimated at 15012; window 25600 in the second, estimated at 16000) on which the server
  reports 9000 tokens is flagged truncated by both.
\<close>

theorem truncation_rule:
  "status_code resp = 200 \<Longrightarrow>
     map_of (test_single_context (\<lambda>rq. Responded resp el) m target nc t) ''truncated''
       = Some (PBool (of_int (json_get (prompt_eval_count resp) 0)
                        < of_int (count_tokens_approx (generate_test_prompt target)) * (9 / 10 :: rat)))
   \<and> map_of (test_context (\<lambda>rq. Responded resp el) m n t') ''truncated''
       = Some (PBool (of_int (json_get (prompt_eval_count resp) 0)
                        < of_int (int (length (py_repeat ''test '' (n div 2))) div 4) * (8 / 10 :: rat)))
   \<and> count_tokens_approx (generate_test_prompt 16000) = 15012
   \<and> int (length (py_repeat ''test '' (25600 div 2))) div 4 = 16000
   \<and> (prompt_eval_count resp = Some 9000 \<longrightarrow>
        map_of (test_single_context (\<lambda>rq. Responded resp el) m 16000 nc t) ''truncated''
          = Some (PBool True)
      \<and> map_of (test_context (\<lambda>rq. Responded resp el) m 25600 t') ''truncated''
          = Some (PBool True))"
  by (simp add: test_single_context_def test_context_def Let_def count_tokens_approx_prompt
        length_py_repeat json_get_def)

theorem truncation_rule_witness:
  "status_code \<lparr>status_code = 200, resp_text = [], prompt_eval_count = Some 9000,
                eval_count = Some 100\<rparr> = 200
   \<and> map_of (test_single_context
               (\<lambda>rq. Responded \<lparr>status_code = 200, resp_text = [], prompt_eval_count = Some 9000,
                                eval_count = Some 100\<rparr> 42)
               ''m1'' 16000 None 180) ''truncated'' = Some (PBool True)
   \<and> map_of (test_context
               (\<lambda>rq. Responded \<lparr>status_code = 200, resp_text = [], prompt_eval_count = Some 9000,
                                eval_count = Some 100\<rparr> 42)
               ''m1'' 25600 300) ''truncated'' = Some (PBool True)"
  using truncation_rule [of "\<lparr>status_code = 200, resp_text = [], prompt_eval_count = Some 9000,
                              eval_count = Some 100\<rparr>" 42 "''m1''" 16000 None 180 25600 300]
  by (simp add: json_get_def)

text \<open>
  C3.  The plateau rule as the two loops apply it, run on a server whose reported count
  goes from 30000 to 31000 (within 10%) and would double at the next window.  The loop of
  \<^verbatim>\<open>find_native_limit\<close> in \<^verbatim>\<open>smart_context_test.py\<close> stops at the plateau and reports
  31000.  Phase 2 of \<^verbatim>\<open>find_max_context\<close> in \<^verbatim>\<open>context_length_test.py\<close> tests the factor
  1.1 only inside the branch where the new count does not exceed the best one, so 31000
  counts as an improvement, the loop goes on and reports 60000 at window 65536.
\<close>

theorem plateau_divergence:
  "map_of (find_native_limit plateau_server (\<lambda>m. ShowRaised) ''t0'' ''m1'') ''native_context''
     = Some (PInt 31000)
   \<and> map_of (find_max_context plateau_server ''t0'' ''m1'' 180) ''max_context_with_num_ctx''
     = Some (PInt 60000)
   \<and> map_of (find_max_context plateau_server ''t0'' ''m1'' 180) ''optimal_num_ctx''
     = Some (PInt 65536)"
  by (simp add: find_native_limit_def find_max_context_def native_test_sizes_def test_sizes_def
        num_ctx_values_def plateau_server_def probe_views outcome_defs Let_def py_int_def
        opt_int_def count_tokens_approx_prompt)


text \<open>
  C4.  In Phase 2 of \<^verbatim>\<open>find_max_context\<close> (\<^verbatim>\<open>context_length_test.py\<close>)
  \<open>max_with_numctx\<close> never decreases when more windows are probed, the terminating probe
  included.  In \<^verbatim>\<open>find_native_limit\<close> (\<^verbatim>\<open>smart_context_test.py\<close>) the count carried from
  probe to probe, \<open>prev_tokens\<close>, never decreases either, and \<open>native_limit\<close> equals it
  unless the loop ended on a probe flagged truncated or found plateaued: then
  \<open>native_limit\<close> is that last probe's own count.  That count can be lower than the one
  before it, as the run on \<open>shrink_server\<close> shows: 3000 after the first probe, 2048 after
  the second.
\<close>

theorem best_so_far_monotone:
  "fst (phase2 srv m t xs mx b ts) \<le> fst (phase2 srv m t (xs @ ys) mx b ts)
   \<and> fst (native_loop srv m xs 0 0 0 []) \<le> fst (native_loop srv m (xs @ ys) 0 0 0 [])
   \<and> (case native_loop srv m xs 0 0 0 [] of
         (prev_tokens, native_limit, hardware_limit, tests) \<Rightarrow>
           native_limit = prev_tokens \<or>
           (\<exists>rec. tests \<noteq> [] \<and> last tests = PDict rec
               \<and> dict_item rec ''success'' = PBool True
               \<and> dict_item rec ''tokens_processed'' = PInt native_limit
               \<and> (dict_get rec ''truncated'' PNone = PBool True
                    \<or> (of_int native_limit \<le> of_int prev_tokens * (11 / 10 :: rat)
                        \<and> 0 < prev_tokens))))"
proof (intro conjI)
  show "fst (phase2 srv m t xs mx b ts) \<le> fst (phase2 srv m t (xs @ ys) mx b ts)"
    by (rule phase2_prefix)
  show "fst (native_loop srv m xs 0 0 0 []) \<le> fst (native_loop srv m (xs @ ys) 0 0 0 [])"
    by (rule native_loop_prefix)
  obtain p n h tests where r: "native_loop srv m xs 0 0 0 [] = (p, n, h, tests)"
    by (cases "native_loop srv m xs 0 0 0 []")
  from native_loop_native [OF r] show "case native_loop srv m xs 0 0 0 [] of
         (prev_tokens, native_limit, hardware_limit, tests) \<Rightarrow>
           native_limit = prev_tokens \<or>
           (\<exists>rec. tests \<noteq> [] \<and> last tests = PDict rec
               \<and> dict_item rec ''success'' = PBool True
               \<and> dict_item rec ''tokens_processed'' = PInt native_limit
               \<and> (dict_get rec ''truncated'' PNone = PBool True
                    \<or> (of_int native_limit \<le> of_int prev_tokens * (11 / 10 :: rat)
                        \<and> 0 < prev_tokens)))"
    by (simp add: r)
qed

theorem native_limit_decreases:
  "fst (snd (native_loop shrink_server ''m1'' [4096, 8192] 0 0 0 []))
     < fst (snd (native_loop shrink_server ''m1'' [4096] 0 0 0 []))"
  by (simp add: shrink_server_def probe_views outcome_defs Let_def)

text \<open>
  C5.  The scenario as the two scripts run it.  In \<^verbatim>\<open>find_native_limit\<close>
  (\<^verbatim>\<open>smart_context_test.py\<close>), whose first three windows are 4096, 8192 and 16384, a
  server that reports 4090 and 8180 tokens and then fails makes the loop stop at the
  failure: three test records, \<^verbatim>\<open>native_context\<close> 8180, \<^verbatim>\<open>hardware_limit\<close> 8180,
  \<^verbatim>\<open>recommended_input\<close> 7362; the window 8192 is kept only in the test record of the
  probe that reported 8180.  In \<^verbatim>\<open>find_max_context\<close> (\<^verbatim>\<open>context_length_test.py\<close>), whose
  windows start at 8192, a report of 8180 at window 8192 followed by a failure at 16384,
  after a Phase 1 that found less than 8180, gives \<^verbatim>\<open>max_context_with_num_ctx\<close> 8180 and
  \<^verbatim>\<open>optimal_num_ctx\<close> 8192.  Neither result holds all three values: the first has no
  optimal-window entry, the second no hardware limit, as the key lists show.
\<close>

theorem scenario_end_to_end:
  assumes "srv (window_request m 4096 300) = Responded r1 e1"
      and "status_code r1 = 200" and "prompt_eval_count r1 = Some 4090"
      and "srv (window_request m 8192 300) = Responded r2 e2"
      and "status_code r2 = 200" and "prompt_eval_count r2 = Some 8180"
      and "srv (window_request m 16384 300) = Raised (OtherException msg)"
      and "srv (single_request m 7372 (Some 8192) t) = Responded r3 e3"
      and "status_code r3 = 200" and "prompt_eval_count r3 = Some 8180"
      and "srv (single_request m 14745 (Some 16384) t) = Raised (OtherException msg')"
      and "fst (phase1 srv m t test_sizes 0 []) < 8180"
  shows "map_of (find_native_limit srv api_show now m) ''native_context'' = Some (PInt 8180)
       \<and> map_of (find_native_limit srv api_show now m) ''hardware_limit'' = Some (PInt 8180)
       \<and> map_of (find_native_limit srv api_show now m) ''recommended_input'' = Some (PInt 7362)
       \<and> map_of (find_native_limit srv api_show now m) ''tests''
           = Some (PList [PDict (AList.update ''num_ctx'' (PInt 4096) (test_context srv m 4096 300)),
                          PDict (AList.update ''num_ctx'' (PInt 8192) (test_context srv m 8192 300)),
                          PDict [(''success'', PBool False), (''error'', PStr (take 50 msg)),
                                 (''num_ctx'', PInt 16384)]])
       \<and> dict_item (test_context srv m 8192 300) ''tokens_processed'' = PInt 8180
       \<and> map_of (find_max_context srv now m t) ''max_context_with_num_ctx'' = Some (PInt 8180)
       \<and> map_of (find_max_context srv now m t) ''optimal_num_ctx'' = Some (PInt 8192)
       \<and> map_of (find_max_context srv now m t) ''recommended_context'' = Some (PInt 6544)"
proof -
  have loop: "native_loop srv m native_test_sizes 0 0 0 [] = (8180, 8180, 8180,
     [PDict (AList.update ''num_ctx'' (PInt 4096) (test_context srv m 4096 300)),
      PDict (AList.update ''num_ctx'' (PInt 8192) (test_context srv m 8192 300)),
      PDict (AList.update ''num_ctx'' (PInt 16384) (test_context srv m 16384 300))])"
    using assms(1-7) by (simp add: native_test_sizes_def probe_views outcome_defs Let_def)
  have third: "test_context srv m 16384 300
                 = [(''success'', PBool False), (''error'', PStr (take 50 msg))]"
    using assms(7) by (simp add: test_context_def Let_def)
  have second: "dict_item (test_context srv m 8192 300) ''tokens_processed'' = PInt 8180"
    using assms(4-6) by (simp add: probe_views outcome_defs)
  obtain d ts where p1: "phase1 srv m t test_sizes 0 [] = (d, ts)"
    by (cases "phase1 srv m t test_sizes 0 []")
  with assms(12) have d: "d < 8180" by simp
  have p2: "phase2 srv m t num_ctx_values d None ts = (8180, Some 8192,
              ts @ [PDict (test_single_context srv m 7372 (Some 8192) t),
                    PDict (test_single_context srv m 14745 (Some 16384) t)])"
    using assms(8-11) d
    by (simp add: num_ctx_values_def probe_views outcome_defs Let_def py_int_def
          floor_numeral_quotient)
  have smart: "map_of (find_native_limit srv api_show now m) ''native_context'' = Some (PInt 8180)
       \<and> map_of (find_native_limit srv api_show now m) ''hardware_limit'' = Some (PInt 8180)
       \<and> map_of (find_native_limit srv api_show now m) ''recommended_input'' = Some (PInt 7362)
       \<and> map_of (find_native_limit srv api_show now m) ''tests''
           = Some (PList [PDict (AList.update ''num_ctx'' (PInt 4096) (test_context srv m 4096 300)),
                          PDict (AList.update ''num_ctx'' (PInt 8192) (test_context srv m 8192 300)),
                          PDict [(''success'', PBool False), (''error'', PStr (take 50 msg)),
                                 (''num_ctx'', PInt 16384)]])"
    by (simp add: find_native_limit_def loop third py_int_def)
  have cl: "map_of (find_max_context srv now m t) ''max_context_with_num_ctx'' = Some (PInt 8180)
       \<and> map_of (find_max_context srv now m t) ''optimal_num_ctx'' = Some (PInt 8192)
       \<and> map_of (find_max_context srv now m t) ''recommended_context'' = Some (PInt 6544)"
    by (simp add: find_max_context_def p1 p2 py_int_def opt_int_def)
  from smart second cl show ?thesis by simp
qed

theorem scenario_end_to_end_witness:
  "map_of (find_native_limit scenario_server (\<lambda>m. ShowRaised) ''t0'' ''m1'') ''native_context''
     = Some (PInt 8180)
   \<and> map_of (find_native_limit scenario_server (\<lambda>m. ShowRaised) ''t0'' ''m1'') ''hardware_limit''
     = Some (PInt 8180)
   \<and> map_of (find_max_context scenario_server ''t0'' ''m1'' 180) ''max_context_with_num_ctx''
     = Some (PInt 8180)
   \<and> map_of (find_max_context scenario_server ''t0'' ''m1'' 180) ''optimal_num_ctx''
     = Some (PInt 8192)"
proof -
  let ?r1 = "\<lparr>status_code = 200, resp_text = [], prompt_eval_count = Some 4090,
              eval_count = Some 10\<rparr>"
  let ?r2 = "\<lparr>status_code = 200, resp_text = [], prompt_eval_count = Some 8180,
              eval_count = Some 10\<rparr>"
  have h1: "scenario_server (window_request ''m1'' 4096 300) = Responded ?r1 1"
    by (simp add: scenario_server_def window_of_def ok_response_def)
  have h2: "scenario_server (window_request ''m1'' 8192 300) = Responded ?r2 1"
    by (simp add: scenario_server_def window_of_def ok_response_def)
  have h3: "scenario_server (window_request ''m1'' 16384 300)
              = Raised (OtherException ''Connection refused'')"
    by (simp add: scenario_server_def window_of_def)
  have h4: "scenario_server (single_request ''m1'' 7372 (Some 8192) 180) = Responded ?r2 1"
    by (simp add: scenario_server_def window_of_def ok_response_def)
  have h5: "scenario_server (single_request ''m1'' 14745 (Some 16384) 180)
              = Raised (OtherException ''Connection refused'')"
    by (simp add: scenario_server_def window_of_def)
  have h6: "fst (phase1 scenario_server ''m1'' 180 test_sizes 0 []) < 8180"
    by (simp add: scenario_phase1)
  have s1: "status_code ?r1 = 200" and c1: "prompt_eval_count ?r1 = Some 4090"
   and s2: "status_code ?r2 = 200" and c2: "prompt_eval_count ?r2 = Some 8180"
    by simp_all
  from scenario_end_to_end [OF h1 s1 c1 h2 s2 c2 h3 h4 s2 c2 h5 h6, of "\<lambda>m. ShowRaised" "''t0''"]
  show ?thesis by simp
qed

theorem scenario_no_optimal_window:
  "map fst (find_native_limit scenario_server (\<lambda>m. ShowRaised) ''t0'' ''m1'')
     = [''model'', ''timestamp'', ''info'', ''tests'', ''native_context'', ''hardware_limit'',
        ''recommended_input'']
   \<and> map fst (find_max_context scenario_server ''t0'' ''m1'' 180)
     = [''model'', ''timestamp'', ''default_context'', ''max_context_with_num_ctx'',
        ''recommended_context'', ''tests'', ''optimal_num_ctx'']
   \<and> 4096 \<notin> set num_ctx_values"
  by (simp add: find_native_limit_def find_max_context_def native_test_sizes_def test_sizes_def
        num_ctx_values_def scenario_server_def probe_views outcome_defs Let_def py_int_def
        opt_int_def count_tokens_approx_prompt)

text \<open>
  C6.  The recommendation is the floor of a ceiling times the script's margin, and never
  above that ceiling: in \<^verbatim>\<open>smart_context_test.py\<close> \<^verbatim>\<open>recommended_input\<close> is
  \<^verbatim>\<open>native_context\<close> times 0.9 and in \<^verbatim>\<open>context_length_test.py\<close> \<^verbatim>\<open>recommended_context\<close>
  is \<^verbatim>\<open>max_context_with_num_ctx\<close> times 0.8, both for a non-negative ceiling (\<^verbatim>\<open>int()\<close>
  truncates towards zero).  In \<^verbatim>\<open>batch_context_test.py\<close> the margin 0.85 is applied to
  \<^verbatim>\<open>max_num_ctx\<close>, the largest window that succeeded, which is never negative; the
  recommendation is bounded by that window, not by the token count \<^verbatim>\<open>max_tokens\<close>, which
  it can exceed (4096, 2050 and 3481 on \<open>batch_server\<close>).
\<close>

theorem recommended_from_margin:
  "(\<exists>n r. map_of (find_native_limit srv api_show now m) ''native_context'' = Some (PInt n)
        \<and> map_of (find_native_limit srv api_show now m) ''recommended_input'' = Some (PInt r)
        \<and> (0 \<le> n \<longrightarrow> r = \<lfloor>of_int n * (9 / 10 :: rat)\<rfloor> \<and> r \<le> n))
   \<and> (\<exists>n r. map_of (find_max_context srv now m t) ''max_context_with_num_ctx'' = Some (PInt n)
        \<and> map_of (find_max_context srv now m t) ''recommended_context'' = Some (PInt r)
        \<and> (0 \<le> n \<longrightarrow> r = \<lfloor>of_int n * (8 / 10 :: rat)\<rfloor> \<and> r \<le> n))
   \<and> (\<exists>c r. map_of (batch_find_max_context srv now m) ''max_num_ctx'' = Some (PInt c)
        \<and> map_of (batch_find_max_context srv now m) ''recommended_ctx'' = Some (PInt r)
        \<and> 0 \<le> c \<and> r = \<lfloor>of_int c * (85 / 100 :: rat)\<rfloor> \<and> r \<le> c)"
proof (intro conjI)
  obtain p n h ts where l: "native_loop srv m native_test_sizes 0 0 0 [] = (p, n, h, ts)"
    by (cases "native_loop srv m native_test_sizes 0 0 0 []")
  show "\<exists>n r. map_of (find_native_limit srv api_show now m) ''native_context'' = Some (PInt n)
        \<and> map_of (find_native_limit srv api_show now m) ''recommended_input'' = Some (PInt r)
        \<and> (0 \<le> n \<longrightarrow> r = \<lfloor>of_int n * (9 / 10 :: rat)\<rfloor> \<and> r \<le> n)"
    using py_int_margin [of n "9 / 10"]
    by (simp add: find_native_limit_def l)
next
  obtain d ts where p1: "phase1 srv m t test_sizes 0 [] = (d, ts)"
    by (cases "phase1 srv m t test_sizes 0 []")
  obtain x b ts' where p2: "phase2 srv m t num_ctx_values d None ts = (x, b, ts')"
    by (cases "phase2 srv m t num_ctx_values d None ts")
  show "\<exists>n r. map_of (find_max_context srv now m t) ''max_context_with_num_ctx'' = Some (PInt n)
        \<and> map_of (find_max_context srv now m t) ''recommended_context'' = Some (PInt r)
        \<and> (0 \<le> n \<longrightarrow> r = \<lfloor>of_int n * (8 / 10 :: rat)\<rfloor> \<and> r \<le> n)"
    using py_int_margin [of x "8 / 10"]
    by (simp add: find_max_context_def p1 p2)
next
  obtain c mt ts where l: "batch_loop srv m context_sizes 0 0 [] = (c, mt, ts)"
    by (cases "batch_loop srv m context_sizes 0 0 []")
  have "0 \<le> fst (batch_loop srv m context_sizes 0 0 [])"
    by (rule batch_loop_nonneg) (simp_all add: context_sizes_def)
  with l have c: "0 \<le> c" by simp
  show "\<exists>c r. map_of (batch_find_max_context srv now m) ''max_num_ctx'' = Some (PInt c)
        \<and> map_of (batch_find_max_context srv now m) ''recommended_ctx'' = Some (PInt r)
        \<and> 0 \<le> c \<and> r = \<lfloor>of_int c * (85 / 100 :: rat)\<rfloor> \<and> r \<le> c"
    using py_int_margin [of c "85 / 100"] c
    by (simp add: batch_find_max_context_def l)
qed

theorem recommended_from_margin_witness:
  "(0::int) \<le> 2050
   \<and> map_of (find_native_limit batch_server (\<lambda>m. ShowRaised) ''t0'' ''m1'') ''native_context''
       = Some (PInt 2050)
   \<and> map_of (find_native_limit batch_server (\<lambda>m. ShowRaised) ''t0'' ''m1'') ''recommended_input''
       = Some (PInt 1845)"
proof -
  have e: "map_of (find_native_limit batch_server (\<lambda>m. ShowRaised) ''t0'' ''m1'') ''native_context''
             = Some (PInt 2050)"
    by (simp add: find_native_limit_def native_test_sizes_def batch_server_def probe_views
          outcome_defs Let_def)
  from recommended_from_margin [of batch_server "\<lambda>m. ShowRaised" "''t0''" "''m1''" 180]
  obtain n r where
    n: "map_of (find_native_limit batch_server (\<lambda>m. ShowRaised) ''t0'' ''m1'') ''native_context''
          = Some (PInt n)"
    and r: "map_of (find_native_limit batch_server (\<lambda>m. ShowRaised) ''t0'' ''m1'') ''recommended_input''
          = Some (PInt r)"
    and imp: "0 \<le> n \<longrightarrow> r = \<lfloor>of_int n * (9 / 10 :: rat)\<rfloor> \<and> r \<le> n"
    by blast
  from n e have "n = 2050" by simp
  with imp have "r = 1845" by (simp add: floor_numeral_quotient)
  with r e show ?thesis by simp
qed

theorem batch_recommended_above_tokens:
  "map_of (batch_find_max_context batch_server ''t0'' ''m1'') ''max_num_ctx'' = Some (PInt 4096)
   \<and> map_of (batch_find_max_context batch_server ''t0'' ''m1'') ''max_tokens'' = Some (PInt 2050)
   \<and> map_of (batch_find_max_context batch_server ''t0'' ''m1'') ''recommended_ctx''
       = Some (PInt 3481)"
  by (simp add: batch_find_max_context_def context_sizes_def batch_test_context_def batch_server_def
        window_of_def outcome_defs Let_def py_int_def floor_numeral_quotient)

text \<open>
  C7.  \<^verbatim>\<open>test_output_limit\<close> on a server that generates 500 tokens for a budget of 1024
  and 540 for a budget of 2048.  The second probe stops the loop (540 is below 2048 and
  within 10% of 500), and the \<^verbatim>\<open>break\<close> comes before \<^verbatim>\<open>max_output\<close> is updated: the
  recorded \<^verbatim>\<open>max_output\<close> is 500 although the recorded tests show 540 generated tokens.
\<close>

theorem max_output_misses_last_probe:
  "map_of (test_output_limit output_server ''m1'' 32768) ''max_output'' = Some (PInt 500)
   \<and> map (\<lambda>r. py_get r ''actual_output'' PNone)
        (snd (output_loop output_server ''m1'' 32768 num_predict_values 0 []))
       = [Some (PInt 500), Some (PInt 540)]"
  by (simp add: test_output_limit_def num_predict_values_def output_server_def json_get_def
        Let_def dict_get_def)

text \<open>
  C8.  Every failure of the call becomes a dictionary with \<^verbatim>\<open>success\<close> false and an
  \<^verbatim>\<open>error\<close> text; nothing is raised.  \<^verbatim>\<open>test_single_context\<close> (\<^verbatim>\<open>context_length_test.py\<close>)
  has three forms: \<^verbatim>\<open>HTTP <code>: <body, 200 characters>\<close> for a status other than 200,
  \<^verbatim>\<open>Timeout after <n>s\<close> for \<^verbatim>\<open>requests.Timeout\<close>, and the exception's text for any other
  exception; the first two never coincide.  \<^verbatim>\<open>test_context\<close> (\<^verbatim>\<open>smart_context_test.py\<close>)
  reports \<^verbatim>\<open>HTTP <code>\<close> for a status other than 200 and, through a single handler, the
  first 50 characters of the exception's text for a timeout and for a transport error
  alike.  The messages \<^verbatim>\<open>requests\<close> produces for the two start with the same 50
  characters, so their outcomes are equal.
\<close>

theorem failure_reasons:
  "status_code resp \<noteq> 200 \<Longrightarrow>
     test_single_context (\<lambda>rq. Responded resp el) m target nc t
       = [(''success'', PBool False), (''target_tokens'', PInt target), (''num_ctx'', opt_int nc),
          (''error'', PStr (''HTTP '' @ str_int (status_code resp) @ '': ''
                             @ take 200 (resp_text resp)))]
   \<and> test_single_context (\<lambda>rq. Raised (Timeout msg)) m target nc t
       = [(''success'', PBool False), (''target_tokens'', PInt target), (''num_ctx'', opt_int nc),
          (''error'', PStr (''Timeout after '' @ str_int t @ ''s''))]
   \<and> test_single_context (\<lambda>rq. Raised (OtherException msg)) m target nc t
       = [(''success'', PBool False), (''target_tokens'', PInt target), (''num_ctx'', opt_int nc),
          (''error'', PStr msg)]
   \<and> ''HTTP '' @ str_int (status_code resp) @ '': '' @ take 200 (resp_text resp)
       \<noteq> ''Timeout after '' @ str_int t @ ''s''
   \<and> test_context (\<lambda>rq. Responded resp el) m w t'
       = [(''success'', PBool False), (''error'', PStr (''HTTP '' @ str_int (status_code resp)))]
   \<and> test_context (\<lambda>rq. Raised e) m w t'
       = [(''success'', PBool False), (''error'', PStr (take 50 (exn_str e)))]"
  by (simp add: test_single_context_def test_context_def Let_def)

theorem failure_reasons_witness:
  "test_context (\<lambda>rq. Responded \<lparr>status_code = 500, resp_text = ''oom'',
                                   prompt_eval_count = None, eval_count = None\<rparr> 1)
       ''m1'' 4096 300
     = [(''success'', PBool False), (''error'', PStr ''HTTP 500'')]
   \<and> test_single_context (\<lambda>rq. Responded \<lparr>status_code = 500, resp_text = ''oom'',
                                   prompt_eval_count = None, eval_count = None\<rparr> 1)
       ''m1'' 2000 None 180
     = [(''success'', PBool False), (''target_tokens'', PInt 2000), (''num_ctx'', PNone),
        (''error'', PStr ''HTTP 500: oom'')]"
proof -
  let ?r = "\<lparr>status_code = 500, resp_text = ''oom'', prompt_eval_count = None,
             eval_count = None\<rparr>"
  have h: "status_code ?r \<noteq> 200" by simp
  from failure_reasons [OF h, of 1 "''m1''" 2000 None 180 "''x''" 4096 300]
  show ?thesis by (simp add: opt_int_def str_int_500)
qed

theorem timeout_and_transport_merged:
  "test_context
     (\<lambda>rq. Raised (Timeout
        ''HTTPConnectionPool(host='localhost', port=11434): Read timed out. (read timeout=300)''))
     ''m1'' 4096 300
   = test_context
     (\<lambda>rq. Raised (OtherException
        ''HTTPConnectionPool(host='localhost', port=11434): Max retries exceeded with url: /api/generate''))
     ''m1'' 4096 300"
  by (simp add: test_context_def Let_def)

text \<open>
  C9.  When every request for a model fails, \<^verbatim>\<open>test_model_complete\<close> still returns a
  profile: \<^verbatim>\<open>native_context\<close> is 0, the tests hold the one failed probe at window 4096
  with its error text, and the output regime recorded nothing.  The per-model loop of
  \<^verbatim>\<open>main\<close> appends one entry per model named on the command line, in order, whatever
  the server does.
\<close>

theorem zero_success_profile:
  assumes "\<forall>rq. rq_model rq = m \<longrightarrow> \<not> is_ok (srv rq)"
  shows "map_of (test_model_complete srv api_show now m) ''native_context'' = Some (PInt 0)
       \<and> map_of (test_model_complete srv api_show now m) ''tests''
              = Some (PList [PDict [(''success'', PBool False),
                   (''error'', PStr (case srv (window_request m 4096 300) of
                        Responded resp elapsed \<Rightarrow> ''HTTP '' @ str_int (status_code resp)
                      | Raised e \<Rightarrow> take 50 (exn_str e))),
                   (''num_ctx'', PInt 4096)]])
       \<and> map_of (test_model_complete srv api_show now m) ''output''
              = Some (PDict [(''tests'', PList []), (''max_output'', PInt 0)])
       \<and> main srv api_show clock (prog # m # others)
              = map (\<lambda>model. PDict (test_model_complete srv api_show (clock model) model))
                  (m # others)"
proof -
  from assms have nok: "\<not> is_ok (srv (window_request m 4096 300))" by simp
  note tc = test_context_failed [of srv m 4096 300, OF nok]
  have loop: "native_loop srv m native_test_sizes 0 0 0 []
                = (0, 0, 0, [PDict (AList.update ''num_ctx'' (PInt 4096)
                                      (test_context srv m 4096 300))])"
    using nok by (simp add: native_test_sizes_def Let_def test_context_success)
  have out: "output_loop srv m 0 num_predict_values 0 [] = (0, [])"
    by (rule output_loop_all_fail [OF assms])
  have "map_of (test_model_complete srv api_show now m) ''native_context'' = Some (PInt 0)
       \<and> map_of (test_model_complete srv api_show now m) ''tests''
              = Some (PList [PDict [(''success'', PBool False),
                   (''error'', PStr (case srv (window_request m 4096 300) of
                        Responded resp elapsed \<Rightarrow> ''HTTP '' @ str_int (status_code resp)
                      | Raised e \<Rightarrow> take 50 (exn_str e))),
                   (''num_ctx'', PInt 4096)]])
       \<and> map_of (test_model_complete srv api_show now m) ''output''
              = Some (PDict [(''tests'', PList []), (''max_output'', PInt 0)])"
    by (simp add: test_model_complete_def find_native_limit_def loop tc test_output_limit_def out
          Let_def dict_get_def py_int_def)
  moreover
  have "main srv api_show clock (prog # m # others)
              = map (\<lambda>model. PDict (test_model_complete srv api_show (clock model) model))
                  (m # others)"
    by (simp add: main_def main_loop_map del: main_loop.simps)
  ultimately show ?thesis by blast
qed

theorem zero_success_profile_witness:
  "map_of (test_model_complete refusing_server (\<lambda>m. ShowRaised) ''t0'' ''m1'') ''native_context''
     = Some (PInt 0)
   \<and> map_of (test_model_complete refusing_server (\<lambda>m. ShowRaised) ''t0'' ''m1'') ''tests''
     = Some (PList [PDict [(''success'', PBool False), (''error'', PStr ''Connection refused''),
                           (''num_ctx'', PInt 4096)]])
   \<and> length (main refusing_server (\<lambda>m. ShowRaised) (\<lambda>m. ''t0'') [''prog'', ''m1'', ''m2'']) = 2"
proof -
  have h: "\<forall>rq. rq_model rq = ''m1'' \<longrightarrow> \<not> is_ok (refusing_server rq)"
    by (simp add: is_ok_def)
  from zero_success_profile [OF h, of "\<lambda>m. ShowRaised" "''t0''" "\<lambda>m. ''t0''" "''prog''" "[''m2'']"]
  show ?thesis by simp
qed

text \<open>
  C10.  In the result of \<^verbatim>\<open>find_native_limit\<close> the \<^verbatim>\<open>hardware_limit\<close> entry is the integer
  token count of the last successful probe exactly when the loop ended on a failed probe
  that followed a successful one with a positive count, and the string
  \<^verbatim>\<open>not reached\<close> in every other case; when the very first probe fails it is that
  string.  Both types occur: the string on a server that refuses every connection, the
  integer 4090 on one that fails after one success.
\<close>

theorem hardware_limit_field:
  "(\<exists>tests. map_of (find_native_limit srv api_show now m) ''tests'' = Some (PList tests)
        \<and> map_of (find_native_limit srv api_show now m) ''hardware_limit''
            = Some (hardware_limit_reported tests))
   \<and> (\<not> is_ok (srv (window_request m 4096 300)) \<longrightarrow>
        map_of (find_native_limit srv api_show now m) ''hardware_limit''
          = Some (PStr ''not reached''))"
proof -
  obtain p n h ts where l: "native_loop srv m native_test_sizes 0 0 0 [] = (p, n, h, ts)"
    by (cases "native_loop srv m native_test_sizes 0 0 0 []")
  have hw: "(if h \<noteq> 0 then PInt h else PStr ''not reached'') = hardware_limit_reported ts"
    by (rule native_loop_hw [OF l]) simp_all
  have first: "h = 0" if "\<not> is_ok (srv (window_request m 4096 300))"
    using that l by (simp add: native_test_sizes_def Let_def test_context_success)
  from hw first show ?thesis
    by (auto simp add: find_native_limit_def l)
qed

theorem hardware_limit_field_witness:
  "map_of (find_native_limit refusing_server (\<lambda>m. ShowRaised) ''t0'' ''m1'') ''hardware_limit''
     = Some (PStr ''not reached'')
   \<and> map_of (find_native_limit drop_server (\<lambda>m. ShowRaised) ''t0'' ''m1'') ''hardware_limit''
     = Some (PInt 4090)"
proof -
  have "\<not> is_ok (refusing_server (window_request ''m1'' 4096 300))"
    by (simp add: is_ok_def)
  with hardware_limit_field [of refusing_server "\<lambda>m. ShowRaised" "''t0''" "''m1''"]
  have "map_of (find_native_limit refusing_server (\<lambda>m. ShowRaised) ''t0'' ''m1'') ''hardware_limit''
          = Some (PStr ''not reached'')"
    by blast
  moreover
  have "map_of (find_native_limit drop_server (\<lambda>m. ShowRaised) ''t0'' ''m1'') ''hardware_limit''
          = Some (PInt 4090)"
    by (simp add: find_native_limit_def native_test_sizes_def drop_server_def probe_views
          outcome_defs Let_def)
  ultimately show ?thesis by simp
qed

end
